theory Spec2Isabelle
  imports Complex_Main
begin

section \<open>Values shared by the three source files\<close>

text \<open>
  A value thrown by JavaScript code. The handlers of the repository only ask whether the
  value is an instance of \<^verbatim>\<open>Error\<close> and, if so, read its \<^verbatim>\<open>message\<close>.
\<close>

datatype thrown = Error string | NonError

text \<open>
  The role of a stored or transmitted turn (\<^verbatim>\<open>"user" | "assistant"\<close>) and the role in
  the provider's vocabulary (\<^verbatim>\<open>"user" | "model"\<close>).
\<close>

datatype role = User | Assistant

datatype gemini_role = GeminiUser | GeminiModel

section \<open>The relay formatter: \<^verbatim>\<open>src/app/lib/gemini.tsx\<close>\<close>

record MessageHistory =
  role :: role
  content :: string

text \<open>\<^verbatim>\<open>parts\<close> always holds exactly one \<^verbatim>\<open>{ text }\<close> object in this file.\<close>

record GeminiMessage =
  grole :: gemini_role
  parts :: "string list"

text \<open>
  All four fields are optional in the source; the numeric literals are taken at their
  decimal value.
\<close>

record GenerationConfig =
  temperature :: "real option"
  topK :: "nat option"
  topP :: "real option"
  maxOutputTokens :: "nat option"

text \<open>
  The external model is reached through two operations of the handle returned by
  \<^verbatim>\<open>getGenerativeModel({ model: "gemini-2.0-flash" })\<close>:
  \<^item> \<^verbatim>\<open>model.generateContent(prompt)\<close>, which is given the prompt and nothing else;
  \<^item> \<^verbatim>\<open>model.startChat({ history, generationConfig }).sendMessage(message)\<close>.

  Each is followed by \<^verbatim>\<open>(await result.response).text()\<close>. A provider is any function
  that answers such a call with a text or by throwing.
\<close>

datatype provider_call =
    GenerateContent string
  | StartChat_sendMessage "GeminiMessage list" GenerationConfig string

type_synonym provider = "provider_call \<Rightarrow> thrown + string"

text \<open>The generation configuration a call hands to the provider, if any.\<close>

fun call_generationConfig :: "provider_call \<Rightarrow> GenerationConfig option" where
  "call_generationConfig (GenerateContent prompt) = None"
| "call_generationConfig (StartChat_sendMessage h cfg m) = Some cfg"

definition toGemini :: "MessageHistory \<Rightarrow> GeminiMessage" where
  "toGemini msg =
     \<lparr>grole = (if role msg = Assistant then GeminiModel else GeminiUser),
      parts = [content msg]\<rparr>"

definition acknowledgement :: string where
  "acknowledgement =
     ''I understand. I'll maintain context from our conversation and provide helpful responses.''"

definition generationConfig :: GenerationConfig where
  "generationConfig =
     \<lparr>temperature = Some 0.7, topK = Some 40, topP = Some 0.95, maxOutputTokens = Some 1024\<rparr>"

definition failure_message :: string where
  "failure_message = ''Failed to get response from Gemini''"

text \<open>
  The \<^verbatim>\<open>catch\<close> of \<^verbatim>\<open>getGeminiResponse\<close>: whatever the provider threw is logged and
  replaced by a fresh \<^verbatim>\<open>Error\<close>.
\<close>

fun rethrow :: "thrown + string \<Rightarrow> thrown + string" where
  "rethrow (Inl e) = Inl (Error failure_message)"
| "rethrow (Inr text) = Inr text"

text \<open>
  \<^verbatim>\<open>getGeminiResponse(message, history, systemPrompt)\<close>. The result is the list of provider
  calls issued, in order, and the outcome: the text returned or the value thrown.
  \<^verbatim>\<open>history.slice(0, -1)\<close> is \<^const>\<open>butlast\<close>; an array is always truthy, so
  \<^verbatim>\<open>history && history.length > 0\<close> is \<open>history \<noteq> []\<close>. \<^verbatim>\<open>if (systemPrompt)\<close> holds
  for a string that is not empty and fails for \<^verbatim>\<open>null\<close> and \<^verbatim>\<open>""\<close>.
\<close>

definition getGeminiResponse ::
  "provider \<Rightarrow> string \<Rightarrow> MessageHistory list \<Rightarrow> string option
     \<Rightarrow> provider_call list \<times> (thrown + string)" where
  "getGeminiResponse genAI message history systemPrompt =
     (if history \<noteq> [] then
        let chatHistory = map toGemini (butlast history);
            initialHistory =
              (case systemPrompt of
                 None \<Rightarrow> chatHistory
               | Some s \<Rightarrow>
                   if s \<noteq> [] then
                     [\<lparr>grole = GeminiUser, parts = [s]\<rparr>,
                      \<lparr>grole = GeminiModel, parts = [acknowledgement]\<rparr>] @ chatHistory
                   else chatHistory);
            call = StartChat_sendMessage initialHistory generationConfig message
        in ([call], rethrow (genAI call))
      else
        let prompt =
              (case systemPrompt of
                 None \<Rightarrow> message
               | Some s \<Rightarrow>
                   if s \<noteq> [] then s @ ''\<newline>\<newline>User: '' @ message else message);
            call = GenerateContent prompt
        in ([call], rethrow (genAI call)))"

text \<open>A provider that answers every call with the same text.\<close>

definition constant_provider :: provider where
  "constant_provider call = Inr ''ok''"

section \<open>The endpoint: \<^verbatim>\<open>src/app/api/chat/route.ts\<close>\<close>

text \<open>
  A value produced by \<^verbatim>\<open>JSON.parse\<close>. The handler asks of a number only whether it is
  truthy, that is, not zero. An object is the list of its own properties; the first
  binding of a key is the property's value.
\<close>

datatype json =
    JNull
  | JBool bool
  | JNum real
  | JStr string
  | JArr "json list"
  | JObj "(string \<times> json) list"

text \<open>
  A JavaScript value read out of parsed JSON: \<open>None\<close> is \<^verbatim>\<open>undefined\<close>, the value of a
  property that is not there.
\<close>

type_synonym js_value = "json option"

datatype js_type = TUndefined | TObject | TBoolean | TNumber | TString

fun typeof :: "js_value \<Rightarrow> js_type" where
  "typeof None = TUndefined"
| "typeof (Some JNull) = TObject"
| "typeof (Some (JBool b)) = TBoolean"
| "typeof (Some (JNum x)) = TNumber"
| "typeof (Some (JStr s)) = TString"
| "typeof (Some (JArr xs)) = TObject"
| "typeof (Some (JObj kvs)) = TObject"

fun truthy :: "js_value \<Rightarrow> bool" where
  "truthy None = False"
| "truthy (Some JNull) = False"
| "truthy (Some (JBool b)) = b"
| "truthy (Some (JNum x)) = (x \<noteq> 0)"
| "truthy (Some (JStr s)) = (s \<noteq> [])"
| "truthy (Some (JArr xs)) = True"
| "truthy (Some (JObj kvs)) = True"

fun isArray :: "js_value \<Rightarrow> bool" where
  "isArray (Some (JArr xs)) = True"
| "isArray v = False"

text \<open>
  \<^verbatim>\<open>item.role\<close> and \<^verbatim>\<open>item.content\<close>, read from a value that is not \<^verbatim>\<open>null\<close>: an array
  has neither property.
\<close>

fun property :: "string \<Rightarrow> json \<Rightarrow> js_value" where
  "property k (JObj kvs) = map_of kvs k"
| "property k v = None"

text \<open>The elements of an array; a value that is not an array is never iterated.\<close>

fun elements :: "js_value \<Rightarrow> json list" where
  "elements (Some (JArr xs)) = xs"
| "elements v = []"

text \<open>The characters of a value whose \<^const>\<open>typeof\<close> is \<^const>\<open>TString\<close>.\<close>

fun string_of :: "js_value \<Rightarrow> string" where
  "string_of (Some (JStr s)) = s"
| "string_of v = []"

text \<open>The predicate given to \<^verbatim>\<open>history.every\<close>.\<close>

definition isValidItem :: "json \<Rightarrow> bool" where
  "isValidItem item \<longleftrightarrow>
     typeof (Some item) = TObject \<and>
     item \<noteq> JNull \<and>
     typeof (property ''role'' item) = TString \<and>
     (property ''role'' item = Some (JStr ''user'') \<or> property ''role'' item = Some (JStr ''assistant'')) \<and>
     typeof (property ''content'' item) = TString"

text \<open>
  The handler passes \<^verbatim>\<open>history\<close> on as it is. An item that passed \<^const>\<open>isValidItem\<close>
  is seen by \<^const>\<open>getGeminiResponse\<close> as the \<^verbatim>\<open>MessageHistory\<close> below. A falsy
  \<^verbatim>\<open>history\<close> that is not an array (\<^verbatim>\<open>null\<close>, \<^verbatim>\<open>false\<close>, \<^verbatim>\<open>0\<close>, \<^verbatim>\<open>""\<close>) fails the test
  \<^verbatim>\<open>history && history.length > 0\<close> of \<^const>\<open>getGeminiResponse\<close> as the empty array does,
  and nothing else is asked of it there.
\<close>

definition asMessageHistory :: "json \<Rightarrow> MessageHistory" where
  "asMessageHistory item =
     \<lparr>role = (if property ''role'' item = Some (JStr ''assistant'') then Assistant else User),
      content = string_of (property ''content'' item)\<rparr>"

definition history_argument :: "js_value \<Rightarrow> MessageHistory list" where
  "history_argument history = map asMessageHistory (elements history)"

text \<open>
  What the destructuring of line 23 reads from the parsed body. \<^verbatim>\<open>message\<close> and
  \<^verbatim>\<open>history\<close> are checked by the handler and may be any value; \<^verbatim>\<open>systemPrompt\<close> is not
  looked at and is taken at its declared type, a string, with \<open>None\<close> where it is
  \<^verbatim>\<open>null\<close> or not there.
\<close>

record ChatRequestBody =
  message :: js_value
  history :: js_value
  systemPrompt :: "string option"

text \<open>
  Lines 22 and 23 either throw (\<^verbatim>\<open>req.json()\<close> rejects a body that is not JSON; the
  destructuring of a body that is \<^verbatim>\<open>null\<close> throws) or yield the three properties.
\<close>

datatype request = Throws thrown | Body ChatRequestBody

datatype response_body = ChatResponse string | ErrorResponse string

record response =
  status :: nat
  body :: response_body

text \<open>The \<^verbatim>\<open>catch\<close> block of the handler.\<close>

fun catch_response :: "thrown \<Rightarrow> response" where
  "catch_response (Error msg) = \<lparr>status = 500, body = ErrorResponse msg\<rparr>"
| "catch_response NonError = \<lparr>status = 500, body = ErrorResponse ''An unexpected error occurred''\<rparr>"

text \<open>
  \<^verbatim>\<open>POST(req)\<close>: the provider calls issued and the response. \<^verbatim>\<open>history.length > 0\<close> is
  reached only for an array or a falsy value.
\<close>

definition POST :: "provider \<Rightarrow> request \<Rightarrow> provider_call list \<times> response" where
  "POST genAI req =
     (case req of
        Throws e \<Rightarrow> ([], catch_response e)
      | Body b \<Rightarrow>
          let msg = message b;
              hist = (case history b of None \<Rightarrow> Some (JArr []) | Some v \<Rightarrow> Some v)
          in
          if \<not> truthy msg \<or> typeof msg \<noteq> TString then
            ([], \<lparr>status = 400,
                  body = ErrorResponse ''Message is required and must be a string''\<rparr>)
          else if truthy hist \<and> \<not> isArray hist then
            ([], \<lparr>status = 400, body = ErrorResponse ''History must be an array''\<rparr>)
          else if truthy hist \<and> elements hist \<noteq> [] \<and> \<not> list_all isValidItem (elements hist) then
            ([], \<lparr>status = 400, body = ErrorResponse ''Invalid history format''\<rparr>)
          else
            (case getGeminiResponse genAI (string_of msg) (history_argument hist) (systemPrompt b) of
               (calls, Inr reply) \<Rightarrow> (calls, \<lparr>status = 200, body = ChatResponse reply\<rparr>)
             | (calls, Inl e) \<Rightarrow> (calls, catch_response e)))"

text \<open>A provider whose every call throws.\<close>

definition failing_provider :: provider where
  "failing_provider call = Inl (Error ''quota exceeded'')"


section \<open>The conversation store: \<^verbatim>\<open>ChatPage\<close>\<close>

record Message =
  role :: role
  "text" :: string
  timestamp :: string
  isError :: "bool option"

text \<open>
  The state of the component that \<^verbatim>\<open>sendMessage\<close> reads and writes. \<^verbatim>\<open>isError\<close> above
  is optional in the source: \<open>None\<close> is a turn without the field.
\<close>

record ChatPage =
  messages :: "Message list"
  input :: string
  isLoading :: bool

text \<open>
  Strings are sequences of code units below 256. Of these, \<^verbatim>\<open>String.prototype.trim\<close>
  strips tab, line feed, vertical tab, form feed, carriage return, space and no-break
  space from both ends.
\<close>

definition isWhiteSpace :: "char \<Rightarrow> bool" where
  "isWhiteSpace c \<longleftrightarrow>
     c \<in> set [CHR 0x09, CHR 0x0A, CHR 0x0B, CHR 0x0C, CHR 0x0D, CHR 0x20, CHR 0xA0]"

definition trim :: "string \<Rightarrow> string" where
  "trim s = rev (dropWhile isWhiteSpace (rev (dropWhile isWhiteSpace s)))"

definition fixed_systemPrompt :: string where
  "fixed_systemPrompt =
     ''You are a helpful AI assistant created by Uzair. Always respond helpfully, and maintain context from earlier messages in this chat. If someone asks Who made you? or anything similar, respond with: I was made by Uzair.''"

definition error_text :: string where
  "error_text = ''Sorry, there was an error processing your request. Please try again.''"

text \<open>
  Lines 84 to 93: the turns of the closure's \<^verbatim>\<open>messages\<close>, which does not yet hold the
  new turn, followed by the current message.
\<close>

definition formattedHistory :: "Message list \<Rightarrow> string \<Rightarrow> MessageHistory list" where
  "formattedHistory msgs currentInput =
     map (\<lambda>msg. \<lparr>MessageHistory.role = (if Message.role msg = Assistant then Assistant else User),
                  content = text msg\<rparr>) msgs @
     [\<lparr>MessageHistory.role = User, content = currentInput\<rparr>]"

text \<open>The body handed to \<^verbatim>\<open>fetch\<close>: message, history and system prompt.\<close>

type_synonym fetch_body = "string \<times> MessageHistory list \<times> string"

text \<open>
  What \<^verbatim>\<open>res.json()\<close> resolves to, at the declared type \<^verbatim>\<open>ChatResponse | ErrorResponse\<close>
  with either property possibly missing: whether \<^verbatim>\<open>'error' in data\<close> holds, and
  \<^verbatim>\<open>data.reply\<close>.
\<close>

record response_data =
  has_error :: bool
  reply :: "string option"

text \<open>
  \<^verbatim>\<open>res_json\<close> is \<open>None\<close> when \<^verbatim>\<open>res.json()\<close> rejects or resolves to a value on which
  the \<^verbatim>\<open>in\<close> test throws.
\<close>

record fetch_response =
  res_status :: nat
  res_json :: "response_data option"

definition ok :: "fetch_response \<Rightarrow> bool" where
  "ok res \<longleftrightarrow> 200 \<le> res_status res \<and> res_status res \<le> 299"

datatype fetch_result = Rejected | Resolved fetch_response

text \<open>
  The \<^verbatim>\<open>try\<close> block from the \<^verbatim>\<open>await fetch\<close> on: the reply it reaches line 119 with, or
  \<open>None\<close> when it throws. The \<^verbatim>\<open>catch\<close> block logs the thrown value and does not
  look at it.
\<close>

fun try_block :: "fetch_result \<Rightarrow> string option" where
  "try_block Rejected = None"
| "try_block (Resolved res) =
     (if \<not> ok res then None
      else case res_json res of
             None \<Rightarrow> None
           | Some data \<Rightarrow>
               if has_error data then None
               else case reply data of
                      None \<Rightarrow> None
                    | Some r \<Rightarrow> if r = [] then None else Some r)"

text \<open>
  \<^verbatim>\<open>sendMessage\<close> up to the \<^verbatim>\<open>await fetch\<close>: \<open>None\<close> when the guard of line 69
  returns, else the state while the request is in flight and the body sent.
\<close>

definition sendMessage_start :: "string \<Rightarrow> ChatPage \<Rightarrow> (ChatPage \<times> fetch_body) option" where
  "sendMessage_start now st =
     (if trim (input st) = [] \<or> isLoading st then None
      else
        let userMessage =
              \<lparr>Message.role = User, text = trim (input st), timestamp = now, isError = None\<rparr>;
            currentInput = trim (input st)
        in Some (st\<lparr>messages := messages st @ [userMessage], input := [], isLoading := True\<rparr>,
                 (currentInput, formattedHistory (messages st) currentInput, fixed_systemPrompt)))"

text \<open>\<^verbatim>\<open>sendMessage\<close> once \<^verbatim>\<open>fetch\<close> has settled; the updaters are applied to the state then.\<close>

definition sendMessage_finish :: "string \<Rightarrow> fetch_result \<Rightarrow> ChatPage \<Rightarrow> ChatPage" where
  "sendMessage_finish now result st =
     (case try_block result of
        Some r \<Rightarrow>
          let botMessage =
                \<lparr>Message.role = Assistant, text = r, timestamp = now, isError = None\<rparr>
          in st\<lparr>messages := messages st @ [botMessage], isLoading := False\<rparr>
      | None \<Rightarrow>
          let errorMessage =
                \<lparr>Message.role = Assistant, text = error_text, timestamp = now, isError = Some True\<rparr>
          in st\<lparr>messages := messages st @ [errorMessage], isLoading := False\<rparr>)"

text \<open>
  A whole run of \<^verbatim>\<open>sendMessage\<close> with nothing else touching the state in between:
  \<open>fetch\<close> answers the body sent, \<open>now1\<close> and \<open>now2\<close> are the two readings of the clock.
\<close>

definition sendMessage ::
  "(fetch_body \<Rightarrow> fetch_result) \<Rightarrow> string \<Rightarrow> string \<Rightarrow> ChatPage \<Rightarrow> ChatPage" where
  "sendMessage fetch now1 now2 st =
     (case sendMessage_start now1 st of
        None \<Rightarrow> st
      | Some (pending, request_body) \<Rightarrow> sendMessage_finish now2 (fetch request_body) pending)"

text \<open>
  A dispatch fails when \<^verbatim>\<open>fetch\<close> rejects, the status is not 2xx, the body cannot be
  read, the body carries an \<^verbatim>\<open>error\<close> field, or the \<^verbatim>\<open>reply\<close> field is missing or empty.
\<close>

fun dispatch_failed :: "fetch_result \<Rightarrow> bool" where
  "dispatch_failed Rejected = True"
| "dispatch_failed (Resolved res) =
     (res_status res < 200 \<or> 299 < res_status res \<or>
      (case res_json res of
         None \<Rightarrow> True
       | Some data \<Rightarrow> has_error data \<or> reply data = None \<or> reply data = Some []))"

text \<open>Two answers of \<^verbatim>\<open>fetch\<close>: the network is down; the server sends an empty reply.\<close>

definition offline :: "fetch_body \<Rightarrow> fetch_result" where
  "offline request_body = Rejected"

definition empty_reply :: "fetch_body \<Rightarrow> fetch_result" where
  "empty_reply request_body =
     Resolved \<lparr>res_status = 200, res_json = Some \<lparr>has_error = False, reply = Some []\<rparr>\<rparr>"

section \<open>Properties of the relay formatter\<close>

text \<open>Every run issues exactly one provider call and passes its outcome through the handler.\<close>

lemma getGeminiResponse_calls:
  "\<exists>c. getGeminiResponse genAI m h sp = ([c], rethrow (genAI c))"
  by (simp add: getGeminiResponse_def Let_def)

text \<open>
  C1 (as amended). With an empty history exactly one provider call is issued, and it is the
  single-shot \<^verbatim>\<open>generateContent\<close>; no chat is started. Its prompt is the system
  prompt, then the text \<^verbatim>\<open>"\n\nUser: "\<close>, then the message when the system prompt is a
  non-empty string; it is the message alone when the system prompt is \<^verbatim>\<open>null\<close> or
  the empty string.
\<close>

theorem single_turn_prompt:
  "fst (getGeminiResponse genAI m [] sp) =
     [GenerateContent
        (case sp of
           None \<Rightarrow> m
         | Some s \<Rightarrow> if s = [] then m else s @ ''\<newline>\<newline>User: '' @ m)]"
  by (cases sp) (simp_all add: getGeminiResponse_def Let_def)

theorem single_turn_prompt_witness:
  "fst (getGeminiResponse constant_provider ''hi'' [] (Some ''X'')) =
     [GenerateContent ''X\<newline>\<newline>User: hi'']"
  using single_turn_prompt [of constant_provider "''hi''" "Some ''X''"] by simp

text \<open>
  C1 as stated fails: for the system prompt \<^verbatim>\<open>"X"\<close> and the message \<^verbatim>\<open>"hi"\<close> the
  prompt handed to the provider is not \<^verbatim>\<open>"X" + "\n\n" + "hi"\<close>.
\<close>

theorem single_turn_prompt_counterexample:
  "fst (getGeminiResponse constant_provider ''hi'' [] (Some ''X'')) \<noteq>
     [GenerateContent (''X'' @ ''\<newline>\<newline>'' @ ''hi'')]"
  by (simp add: getGeminiResponse_def Let_def)

text \<open>
  C2. For a non-empty history exactly one provider call is issued: a chat seeded with a
  history and sent the new message. The seed is the history without its last entry, each
  entry mapped to the provider's role (\<^verbatim>\<open>assistant\<close> to \<^verbatim>\<open>model\<close>, \<^verbatim>\<open>user\<close> to \<^verbatim>\<open>user\<close>)
  with its content unchanged, preceded by a user turn holding the system prompt and a model
  turn acknowledging it exactly when a system prompt is supplied, that is, when it is a
  string that is not empty (the test \<^verbatim>\<open>if (systemPrompt)\<close> under the source's comment
  ``Add system prompt if provided''). The seed is one shorter than the history without a
  system prompt and one longer with one.
\<close>

theorem multi_turn_seed_history:
  assumes "h \<noteq> []"
  shows "\<exists>seed.
           fst (getGeminiResponse genAI m h sp) = [StartChat_sendMessage seed generationConfig m] \<and>
           seed =
             (case sp of
                None \<Rightarrow> []
              | Some s \<Rightarrow>
                  if s = [] then []
                  else [\<lparr>grole = GeminiUser, parts = [s]\<rparr>,
                        \<lparr>grole = GeminiModel, parts = [acknowledgement]\<rparr>]) @
             map (\<lambda>e. \<lparr>grole = (case MessageHistory.role e of
                                   Assistant \<Rightarrow> GeminiModel
                                 | User \<Rightarrow> GeminiUser),
                       parts = [content e]\<rparr>)
                 (butlast h) \<and>
           length seed =
             (case sp of
                None \<Rightarrow> length h - 1
              | Some s \<Rightarrow> if s = [] then length h - 1 else length h + 1)"
proof -
  have conv:
    "toGemini =
       (\<lambda>e. \<lparr>grole = (case MessageHistory.role e of
                        Assistant \<Rightarrow> GeminiModel
                      | User \<Rightarrow> GeminiUser),
              parts = [content e]\<rparr>)"
    by (rule ext) (simp add: toGemini_def split: role.split)
  from assms have len: "0 < length h" by simp
  show ?thesis
    using assms len
    by (cases sp) (simp_all add: getGeminiResponse_def Let_def conv)
qed

theorem multi_turn_seed_history_witness:
  "fst (getGeminiResponse constant_provider ''m''
          [\<lparr>MessageHistory.role = User, content = ''u1''\<rparr>,
           \<lparr>MessageHistory.role = Assistant, content = ''a1''\<rparr>,
           \<lparr>MessageHistory.role = User, content = ''m''\<rparr>] (Some ''S'')) =
     [StartChat_sendMessage
        [\<lparr>grole = GeminiUser, parts = [''S'']\<rparr>,
         \<lparr>grole = GeminiModel, parts = [acknowledgement]\<rparr>,
         \<lparr>grole = GeminiUser, parts = [''u1'']\<rparr>,
         \<lparr>grole = GeminiModel, parts = [''a1'']\<rparr>]
        generationConfig ''m'']"
  using multi_turn_seed_history
    [of "[\<lparr>MessageHistory.role = User, content = ''u1''\<rparr>,
          \<lparr>MessageHistory.role = Assistant, content = ''a1''\<rparr>,
          \<lparr>MessageHistory.role = User, content = ''m''\<rparr>]"
        constant_provider "''m''" "Some ''S''"]
  by simp

text \<open>
  The history that \<^verbatim>\<open>sendMessage\<close> sends ends with the new message, so the seed built
  from it holds one turn for each stored turn.
\<close>

lemma formattedHistory_round_trip:
  "fst (getGeminiResponse genAI m (formattedHistory msgs m) None) =
     [StartChat_sendMessage
        (map (\<lambda>msg. \<lparr>grole = (if Message.role msg = Assistant then GeminiModel else GeminiUser),
                     parts = [text msg]\<rparr>) msgs)
        generationConfig m]"
  by (simp add: getGeminiResponse_def formattedHistory_def Let_def toGemini_def comp_def)

text \<open>
  A chat is always started with temperature 0.7, topK 40, topP 0.95 and maxOutputTokens
  1024.
\<close>

lemma multi_turn_generationConfig:
  "h \<noteq> [] \<Longrightarrow>
   map call_generationConfig (fst (getGeminiResponse genAI m h sp)) =
     [Some \<lparr>temperature = Some (7 / 10), topK = Some 40, topP = Some (95 / 100),
            maxOutputTokens = Some 1024\<rparr>]"
  by (simp add: getGeminiResponse_def Let_def generationConfig_def)

text \<open>
  C3, the single-turn half, where the source departs from the claim: for the message
  \<^verbatim>\<open>"hi"\<close>, an empty history and no system prompt the one provider call issued carries
  no generation configuration at all.
\<close>

theorem single_turn_no_generationConfig:
  "map call_generationConfig (fst (getGeminiResponse constant_provider ''hi'' [] None)) = [None]"
  by (simp add: getGeminiResponse_def Let_def)

section \<open>Properties of the endpoint\<close>

lemma message_ok_iff:
  "truthy v \<and> typeof v = TString \<longleftrightarrow> (\<exists>s. v = Some (JStr s) \<and> s \<noteq> [])"
  by (cases v rule: typeof.cases) auto

lemma POST_rejects_message:
  "\<not> (\<exists>s. message b = Some (JStr s) \<and> s \<noteq> []) \<Longrightarrow>
   POST genAI (Body b) =
     ([], \<lparr>status = 400, body = ErrorResponse ''Message is required and must be a string''\<rparr>)"
  using message_ok_iff [of "message b"] by (auto simp add: POST_def Let_def)

lemma POST_accepts_message:
  assumes "message b = Some (JStr s)" and "s \<noteq> []"
  shows "snd (POST genAI (Body b)) \<noteq>
     \<lparr>status = 400, body = ErrorResponse ''Message is required and must be a string''\<rparr>"
proof -
  obtain c where c:
    "getGeminiResponse genAI s
       (history_argument (case history b of None \<Rightarrow> Some (JArr []) | Some v \<Rightarrow> Some v))
       (systemPrompt b) = ([c], rethrow (genAI c))"
    using getGeminiResponse_calls by blast
  have caught:
    "catch_response e \<noteq>
       \<lparr>status = 400, body = ErrorResponse ''Message is required and must be a string''\<rparr>" for e
    by (cases e) simp_all
  show ?thesis
    using assms c caught
    by (simp add: POST_def Let_def split: sum.split)
qed

text \<open>
  C4 (as amended). The response is 400 with the error ``Message is required and must be a
  string'' if and only if the body was read without an exception and its \<^verbatim>\<open>message\<close> is
  absent, not a string, or the empty string. Every request whose message is a non-empty
  string gets another response.
\<close>

theorem invalid_message_400:
  "snd (POST genAI req) =
     \<lparr>status = 400, body = ErrorResponse ''Message is required and must be a string''\<rparr> \<longleftrightarrow>
   (\<exists>b. req = Body b \<and> \<not> (\<exists>s. message b = Some (JStr s) \<and> s \<noteq> []))"
proof (cases req)
  case (Throws e)
  then show ?thesis by (cases e) (simp_all add: POST_def)
next
  case (Body b)
  show ?thesis
  proof (cases "\<exists>s. message b = Some (JStr s) \<and> s \<noteq> []")
    case True
    then show ?thesis using Body POST_accepts_message [of b] by auto
  next
    case False
    then show ?thesis using Body POST_rejects_message [of b genAI] by simp
  qed
qed

theorem invalid_message_400_witness:
  "snd (POST constant_provider
          (Body \<lparr>message = Some (JNum 5), history = None, systemPrompt = None\<rparr>)) =
     \<lparr>status = 400, body = ErrorResponse ''Message is required and must be a string''\<rparr>"
  using invalid_message_400
    [of constant_provider "Body \<lparr>message = Some (JNum 5), history = None, systemPrompt = None\<rparr>"]
  by simp

text \<open>
  C4 as stated fails: the body \<^verbatim>\<open>{"message": ""}\<close> has a message that is a string, and
  the response is the 400 of the first rule.
\<close>

theorem invalid_message_400_counterexample:
  "snd (POST constant_provider
          (Body \<lparr>message = Some (JStr []), history = None, systemPrompt = None\<rparr>)) =
     \<lparr>status = 400, body = ErrorResponse ''Message is required and must be a string''\<rparr>"
  by (simp add: POST_def)

text \<open>
  C5 (as amended). When the message is a non-empty string and \<^verbatim>\<open>history\<close> is present,
  truthy (not \<^verbatim>\<open>null\<close>, \<^verbatim>\<open>false\<close>, \<^verbatim>\<open>0\<close> or \<^verbatim>\<open>""\<close>) and not an array, the response is 400
  with the error ``History must be an array'' and no provider call is issued.
\<close>

theorem invalid_history_type_400:
  assumes "message b = Some (JStr s)" and "s \<noteq> []"
    and "history b = Some v"
    and "v \<noteq> JNull" and "v \<noteq> JBool False" and "v \<noteq> JNum 0" and "v \<noteq> JStr []"
    and "\<forall>xs. v \<noteq> JArr xs"
  shows "POST genAI (Body b) =
     ([], \<lparr>status = 400, body = ErrorResponse ''History must be an array''\<rparr>)"
proof -
  have "truthy (Some v)" using assms(4-7) by (cases v) auto
  moreover have "\<not> isArray (Some v)" using assms(8) by (cases v) auto
  ultimately show ?thesis using assms(1-3) by (simp add: POST_def Let_def)
qed

theorem invalid_history_type_400_witness:
  "POST constant_provider
     (Body \<lparr>message = Some (JStr ''hi''), history = Some (JStr ''abc''), systemPrompt = None\<rparr>) =
     ([], \<lparr>status = 400, body = ErrorResponse ''History must be an array''\<rparr>)"
  using invalid_history_type_400
    [of "\<lparr>message = Some (JStr ''hi''), history = Some (JStr ''abc''), systemPrompt = None\<rparr>"
        "''hi''" "JStr ''abc''" constant_provider]
  by simp

text \<open>
  C5 as stated fails: the body \<^verbatim>\<open>{"message": "hi", "history": false}\<close> has a history that
  is present and not an array, yet the provider is called and the response is 200.
\<close>

theorem invalid_history_type_400_counterexample:
  "POST constant_provider
     (Body \<lparr>message = Some (JStr ''hi''), history = Some (JBool False), systemPrompt = None\<rparr>) =
     ([GenerateContent ''hi''], \<lparr>status = 200, body = ChatResponse ''ok''\<rparr>)"
  by (simp add: POST_def Let_def history_argument_def getGeminiResponse_def constant_provider_def)

text \<open>
  C6. When the provider throws on the call it is given, single-shot or chat,
  \<^verbatim>\<open>getGeminiResponse\<close> throws an \<^verbatim>\<open>Error\<close> with the message ``Failed to get response from
  Gemini'', whatever was thrown, and the endpoint answers 500 with that message as its
  error.
\<close>

theorem provider_failure_500:
  assumes "genAI c = Inl e"
  shows "(fst (getGeminiResponse genAI m h sp) = [c] \<longrightarrow>
            snd (getGeminiResponse genAI m h sp) =
              Inl (Error ''Failed to get response from Gemini'')) \<and>
         (fst (POST genAI req) = [c] \<longrightarrow>
            snd (POST genAI req) =
              \<lparr>status = 500, body = ErrorResponse ''Failed to get response from Gemini''\<rparr>)"
proof (intro conjI impI)
  assume "fst (getGeminiResponse genAI m h sp) = [c]"
  then show "snd (getGeminiResponse genAI m h sp) =
      Inl (Error ''Failed to get response from Gemini'')"
    using assms getGeminiResponse_calls [of genAI m h sp] by (auto simp: failure_message_def)
next
  assume calls: "fst (POST genAI req) = [c]"
  show "snd (POST genAI req) =
      \<lparr>status = 500, body = ErrorResponse ''Failed to get response from Gemini''\<rparr>"
  proof (cases req)
    case (Throws t)
    then show ?thesis using calls by (simp add: POST_def)
  next
    case (Body b)
    obtain c' where c':
      "getGeminiResponse genAI (string_of (message b))
         (history_argument (case history b of None \<Rightarrow> Some (JArr []) | Some v \<Rightarrow> Some v))
         (systemPrompt b) = ([c'], rethrow (genAI c'))"
      using getGeminiResponse_calls by blast
    show ?thesis
      using calls Body c' assms
      by (auto simp add: POST_def Let_def failure_message_def split: if_splits sum.splits)
  qed
qed

theorem provider_failure_500_witness:
  "snd (getGeminiResponse failing_provider ''hi'' [] None) =
     Inl (Error ''Failed to get response from Gemini'') \<and>
   snd (POST failing_provider
          (Body \<lparr>message = Some (JStr ''hi''), history = None, systemPrompt = None\<rparr>)) =
     \<lparr>status = 500, body = ErrorResponse ''Failed to get response from Gemini''\<rparr>"
proof -
  have raised: "failing_provider (GenerateContent ''hi'') = Inl (Error ''quota exceeded'')"
    by (simp add: failing_provider_def)
  have c1: "fst (getGeminiResponse failing_provider ''hi'' [] None) = [GenerateContent ''hi'']"
    by (simp add: getGeminiResponse_def Let_def)
  have c2:
    "fst (POST failing_provider
            (Body \<lparr>message = Some (JStr ''hi''), history = None, systemPrompt = None\<rparr>)) =
       [GenerateContent ''hi'']"
    by (simp add: POST_def Let_def history_argument_def getGeminiResponse_def
          failing_provider_def failure_message_def)
  show ?thesis
    using provider_failure_500
      [where genAI = failing_provider and c = "GenerateContent ''hi''"
         and e = "Error ''quota exceeded''" and m = "''hi''" and h = "[]" and sp = None
         and req = "Body \<lparr>message = Some (JStr ''hi''), history = None, systemPrompt = None\<rparr>"]
      raised c1 c2
    by blast
qed

text \<open>
  C10. When reading the body throws, as it does for a body that is not JSON, no validation
  rule is consulted and no provider call is issued: the response is 500 with an error
  body, the thrown \<^verbatim>\<open>Error\<close>'s message or the fixed text for any other thrown value. It
  is never a 400.
\<close>

theorem unparseable_body_500:
  "POST genAI (Throws e) =
     ([], \<lparr>status = 500,
           body = ErrorResponse (case e of
                                   Error msg \<Rightarrow> msg
                                 | NonError \<Rightarrow> ''An unexpected error occurred'')\<rparr>) \<and>
   status (snd (POST genAI (Throws e))) \<noteq> 400"
  by (cases e) (simp_all add: POST_def)

theorem unparseable_body_500_witness:
  "POST constant_provider (Throws (Error ''Unexpected token'')) =
     ([], \<lparr>status = 500, body = ErrorResponse ''Unexpected token''\<rparr>)"
  using unparseable_body_500 [of constant_provider "Error ''Unexpected token''"] by simp

section \<open>Properties of the conversation store\<close>

lemma try_block_failed: "dispatch_failed result \<Longrightarrow> try_block result = None"
  by (cases result) (auto simp: ok_def split: option.splits)

lemma trim_examples: "trim '' hi '' = ''hi''" "trim ''hi'' = ''hi''" "trim ''  '' = []"
  by (simp_all add: trim_def isWhiteSpace_def)

text \<open>
  C7. When the guard lets the input through and the dispatch of the body sent fails
  (\<^verbatim>\<open>fetch\<close> rejects, the status is not 2xx, the body cannot be read, it carries an
  \<^verbatim>\<open>error\<close> field, or its \<^verbatim>\<open>reply\<close> is missing or empty), the session afterwards is the
  session before, then the user's turn, then one assistant turn with \<^verbatim>\<open>isError\<close> true
  and the fixed text: two turns more, and the earlier turns as they were.
\<close>

theorem failed_dispatch_appends_error_turn:
  assumes "trim (input st) \<noteq> []" and "\<not> isLoading st"
    and "dispatch_failed
           (fetch (trim (input st), formattedHistory (messages st) (trim (input st)),
                   fixed_systemPrompt))"
  shows "messages (sendMessage fetch now1 now2 st) =
           messages st @
           [\<lparr>Message.role = User, text = trim (input st), timestamp = now1, isError = None\<rparr>,
            \<lparr>Message.role = Assistant,
             text = ''Sorry, there was an error processing your request. Please try again.'',
             timestamp = now2, isError = Some True\<rparr>] \<and>
         length (messages (sendMessage fetch now1 now2 st)) = length (messages st) + 2 \<and>
         take (length (messages st)) (messages (sendMessage fetch now1 now2 st)) = messages st"
  using assms
  by (simp add: sendMessage_def sendMessage_start_def sendMessage_finish_def Let_def
        try_block_failed error_text_def)

theorem failed_dispatch_appends_error_turn_witness:
  "messages (sendMessage offline ''t1'' ''t2''
               \<lparr>messages = [], input = '' hi '', isLoading = False\<rparr>) =
     [\<lparr>Message.role = User, text = ''hi'', timestamp = ''t1'', isError = None\<rparr>,
      \<lparr>Message.role = Assistant,
       text = ''Sorry, there was an error processing your request. Please try again.'',
       timestamp = ''t2'', isError = Some True\<rparr>]"
  using failed_dispatch_appends_error_turn
    [of "\<lparr>messages = [], input = '' hi '', isLoading = False\<rparr>" offline "''t1''" "''t2''"]
    trim_examples
  by (simp add: offline_def)

text \<open>
  C8. When the trimmed input is empty or a request is in flight, \<^verbatim>\<open>sendMessage\<close> returns
  at its guard and the state, the session with it, stays as it was. Otherwise the state
  while the request is in flight holds the session followed by one user turn whose text
  is the trimmed input: one turn more, before any reply.
\<close>

theorem sendMessage_guard:
  "(trim (input st) = [] \<or> isLoading st \<longrightarrow>
      sendMessage_start now1 st = None \<and> sendMessage fetch now1 now2 st = st) \<and>
   (trim (input st) \<noteq> [] \<and> \<not> isLoading st \<longrightarrow>
      (\<exists>pending request_body.
         sendMessage_start now1 st = Some (pending, request_body) \<and>
         messages pending =
           messages st @
           [\<lparr>Message.role = User, text = trim (input st), timestamp = now1, isError = None\<rparr>] \<and>
         length (messages pending) = length (messages st) + 1))"
  by (simp add: sendMessage_def sendMessage_start_def Let_def)

theorem sendMessage_guard_witness:
  "sendMessage offline ''t1'' ''t2'' \<lparr>messages = [], input = ''  '', isLoading = False\<rparr> =
     \<lparr>messages = [], input = ''  '', isLoading = False\<rparr> \<and>
   (\<exists>pending request_body.
      sendMessage_start ''t1'' \<lparr>messages = [], input = '' hi '', isLoading = False\<rparr> =
        Some (pending, request_body) \<and>
      messages pending =
        [\<lparr>Message.role = User, text = ''hi'', timestamp = ''t1'', isError = None\<rparr>])"
  using
    sendMessage_guard
      [of "\<lparr>messages = [], input = ''  '', isLoading = False\<rparr>" "''t1''" offline "''t2''"]
    sendMessage_guard
      [of "\<lparr>messages = [], input = '' hi '', isLoading = False\<rparr>" "''t1''" offline "''t2''"]
    trim_examples
  by auto

text \<open>
  C9. When the server answers 200 with the body \<^verbatim>\<open>{"reply": ""}\<close>, the exchange counts as
  failed: after the user's turn the session gains the assistant turn with \<^verbatim>\<open>isError\<close>
  true and the fixed text, not an assistant turn holding the empty reply.
\<close>

theorem empty_reply_is_failure:
  assumes "trim (input st) \<noteq> []" and "\<not> isLoading st"
    and "fetch (trim (input st), formattedHistory (messages st) (trim (input st)),
                fixed_systemPrompt) =
           Resolved \<lparr>res_status = 200, res_json = Some \<lparr>has_error = False, reply = Some []\<rparr>\<rparr>"
  shows "messages (sendMessage fetch now1 now2 st) =
           messages st @
           [\<lparr>Message.role = User, text = trim (input st), timestamp = now1, isError = None\<rparr>,
            \<lparr>Message.role = Assistant,
             text = ''Sorry, there was an error processing your request. Please try again.'',
             timestamp = now2, isError = Some True\<rparr>]"
  using assms
  by (simp add: sendMessage_def sendMessage_start_def sendMessage_finish_def Let_def
        ok_def error_text_def)

theorem empty_reply_is_failure_witness:
  "messages (sendMessage empty_reply ''t1'' ''t2''
               \<lparr>messages = [], input = ''hi'', isLoading = False\<rparr>) =
     [\<lparr>Message.role = User, text = ''hi'', timestamp = ''t1'', isError = None\<rparr>,
      \<lparr>Message.role = Assistant,
       text = ''Sorry, there was an error processing your request. Please try again.'',
       timestamp = ''t2'', isError = Some True\<rparr>]"
  using empty_reply_is_failure
    [of "\<lparr>messages = [], input = ''hi'', isLoading = False\<rparr>" empty_reply "''t1''" "''t2''"]
    trim_examples
  by (simp add: empty_reply_def)

end
